theory Spec2Isabelle
  imports Complex_Main "HOL-Library.Sublist"
begin

section \<open>Values, objects and results\<close>

text \<open>
  The repository is a template for the CRUD endpoints of an entity: Hono routes, Zod
  schemas and Drizzle queries against a PostgreSQL table, written once with the
  placeholders \<open><entity>\<close>, \<open><entities>\<close> and \<open><entityId>\<close>.  A JavaScript object is a finite
  map from property names to values; a table row, a JSON request body and a validated body
  are all such objects.  Numbers are mathematical integers: the rounding of doubles above
  \<open>2^53\<close> and the integer range of the database are not represented.
\<close>

datatype jsval = JStr string | JNum int | JBool bool | JNull

type_synonym obj = "string \<rightharpoonup> jsval"

text \<open>
  A handler either produces a response (status code and JSON body) or signals an error:
  a rejected request (\<open>zValidator\<close>), a missing record (\<open>notFoundError\<close>), or an
  exception thrown by an awaited query, which no handler of the template catches.
\<close>

datatype error = ValidationError | NotFoundError string | StoreError

type_synonym 'a response = "nat \<times> 'a"

definition OK :: nat where
  "OK = 200"


section \<open>The record store\<close>

text \<open>
  The table is the sequence of its rows in the order in which the database scans them; no
  query of the template has an ORDER BY clause, so that order is the order of every result.
  \<open>calls\<close> counts the queries that reached the store, and \<open>outage n\<close> tells whether the
  query number \<open>n\<close> fails (connectivity, timeout), in which case the awaited promise rejects.
\<close>

record store =
  rows :: "obj list"
  calls :: nat
  outage :: "nat \<Rightarrow> bool"

definition entityId :: string where
  "entityId = ''entityId''"


text \<open>
  \<open>and(...filters)\<close>: the conjunction of the conditions; with no condition the WHERE clause
  is absent and every row is selected.
\<close>

definition sql_and :: "(obj \<Rightarrow> bool) list \<Rightarrow> obj \<Rightarrow> bool" where
  "sql_and filters row = list_all (\<lambda>f. f row) filters"


text \<open>
  The LIKE operator of PostgreSQL: \<open>%\<close> matches any sequence of characters, \<open>_\<close> any single
  character, a backslash makes the next pattern character literal, and every other pattern
  character matches itself, with its case.  (A pattern ending in a lone backslash is
  rejected by PostgreSQL; the patterns built by the list route end in \<open>%\<close>.)
\<close>

fun like_match :: "string \<Rightarrow> string \<Rightarrow> bool" where
  "like_match [] s = (s = [])"
| "like_match (p # ps) s =
     (if p = CHR ''%'' then
        like_match ps s \<or> (case s of [] \<Rightarrow> False | c # cs \<Rightarrow> like_match (p # ps) cs)
      else if p = CHR ''_'' then
        (case s of [] \<Rightarrow> False | c # cs \<Rightarrow> like_match ps cs)
      else if p = CHR 0x5C then
        (case ps of [] \<Rightarrow> False
         | e # es \<Rightarrow> (case s of [] \<Rightarrow> False | c # cs \<Rightarrow> c = e \<and> like_match es cs))
      else
        (case s of [] \<Rightarrow> False | c # cs \<Rightarrow> c = p \<and> like_match ps cs))"

definition like :: "string \<Rightarrow> string \<Rightarrow> obj \<Rightarrow> bool" where
  "like column pattern row =
     (case row column of Some (JStr s) \<Rightarrow> like_match pattern s | _ \<Rightarrow> False)"

text \<open>\<open>client.select({ totalCount: count() }).from(<entities>).where(and(...filters))\<close>\<close>

definition selectCount :: "store \<Rightarrow> (obj \<Rightarrow> bool) list \<Rightarrow> (error + int) \<times> store" where
  "selectCount db filters =
     (if outage db (calls db) then Inl StoreError
      else Inr (int (length (filter (sql_and filters) (rows db)))),
      db\<lparr>calls := Suc (calls db)\<rparr>)"

text \<open>
  \<open>client.select().from(<entities>).where(and(...filters)).limit(n).offset(k)\<close>.  The
  query builder writes the LIMIT clause for a limit \<open>n \<ge> 0\<close> only, and PostgreSQL rejects a
  negative OFFSET.  A query without \<open>.offset\<close> is the query with offset 0.
\<close>

definition selectFrom ::
  "store \<Rightarrow> (obj \<Rightarrow> bool) list \<Rightarrow> int \<Rightarrow> int \<Rightarrow> (error + obj list) \<times> store" where
  "selectFrom db filters limit offset =
     (if outage db (calls db) \<or> offset < 0 then Inl StoreError
      else Inr ((if 0 \<le> limit then take (nat limit) else (\<lambda>found. found))
                  (drop (nat offset) (filter (sql_and filters) (rows db)))),
      db\<lparr>calls := Suc (calls db)\<rparr>)"



section \<open>Zod schemas\<close>












section \<open>Pagination\<close>

record page =
  items :: "obj list"
  totalCount :: int
  pageNumber :: int
  pageSize :: int
  totalPages :: int

text \<open>
  Modelled from the spec: \<open>createPage\<close> of \<open>pagination.ts\<close>, which is not among the
  sources.  Section 4.1, step 4: assemble
  \<open>{ items, totalCount, pageNumber, pageSize, totalPages: ceil(totalCount / pageSize) }\<close>.
  The spec gives \<open>totalPages\<close> for a positive page size only; every statement about
  \<open>totalPages\<close> below is for a positive page size.
\<close>

definition createPage :: "obj list \<Rightarrow> int \<Rightarrow> int \<Rightarrow> int \<Rightarrow> page" where
  "createPage its count pn ps =
     \<lparr>items = its, totalCount = count, pageNumber = pn, pageSize = ps,
      totalPages = \<lceil>(of_int count :: real) / of_int ps\<rceil>\<rparr>"

text \<open>
  The query of a list request.  A pagination parameter of the query string is absent, or
  present; when present its text either denotes a number (of any sign, possibly
  fractional) or does not.  The default page size and the maxima are configuration.
\<close>

datatype qparam = NotANumber | Number real

record listQuery =
  queryPageNumber :: "qparam option"
  queryPageSize :: "qparam option"
  queryName :: "string option"

record paginationConfig =
  defaultPageSize :: int
  maxPageNumber :: "int option"
  maxPageSize :: "int option"

text \<open>
  Modelled from the spec: the check of one pagination parameter in \<open>paginationSchema\<close> of
  \<open>pagination.ts\<close>, which is not among the sources.  Section 4.1: a value that is
  non-positive, not an integer, or above a configured maximum is a validation error; it is
  never clamped.
\<close>

definition positiveInteger :: "int option \<Rightarrow> qparam \<Rightarrow> error + int" where
  "positiveInteger cap p =
     (case p of
        NotANumber \<Rightarrow> Inl ValidationError
      | Number x \<Rightarrow>
          if x = of_int \<lfloor>x\<rfloor> \<and> 1 \<le> x \<and> (case cap of None \<Rightarrow> True | Some m \<Rightarrow> x \<le> of_int m)
          then Inr \<lfloor>x\<rfloor> else Inl ValidationError)"

text \<open>
  Modelled from the spec: \<open>paginationSchema\<close> of \<open>pagination.ts\<close>, which is not among the
  sources.  Section 3: page number, a positive integer, default 1; page size, a positive
  integer with a default, typically capped.
\<close>

definition paginationSchema :: "paginationConfig \<Rightarrow> listQuery \<Rightarrow> error + int \<times> int" where
  "paginationSchema cfg q =
     (case (case queryPageNumber q of None \<Rightarrow> Inr 1
            | Some p \<Rightarrow> positiveInteger (maxPageNumber cfg) p) of
        Inl e \<Rightarrow> Inl e
      | Inr pn \<Rightarrow>
          (case (case queryPageSize q of None \<Rightarrow> Inr (defaultPageSize cfg)
                 | Some p \<Rightarrow> positiveInteger (maxPageSize cfg) p) of
             Inl e \<Rightarrow> Inl e
           | Inr ps \<Rightarrow> Inr (pn, ps)))"

text \<open>
  \<open>list<Entities>Schema = paginationSchema.extend({ name: z.string().optional() })\<close>: every
  text is a string, so the name never fails.
\<close>

definition listEntitiesSchema ::
  "paginationConfig \<Rightarrow> listQuery \<Rightarrow> error + int \<times> int \<times> string option" where
  "listEntitiesSchema cfg q =
     (case paginationSchema cfg q of
        Inl e \<Rightarrow> Inl e
      | Inr (pn, ps) \<Rightarrow> Inr (pn, ps, queryName q))"

section \<open>Routes\<close>

text \<open>
  Modelled from the spec: the \<open>zValidator\<close> wrapper of \<open>validator.ts\<close>, which is not among
  the sources.  Sections 6 and 7: the request shape is enforced before the operation
  executes; a validation error is surfaced to the caller immediately, before any store
  access.  The handler runs on the validated value only.
\<close>

definition zValidator ::
  "('i \<Rightarrow> error + 'v) \<Rightarrow> 'i \<Rightarrow> ('v \<Rightarrow> store \<Rightarrow> (error + 'r) \<times> store)
    \<Rightarrow> store \<Rightarrow> (error + 'r) \<times> store" where
  "zValidator sch input handler db =
     (case sch input of Inl e \<Rightarrow> (Inl e, db) | Inr v \<Rightarrow> handler v db)"


text \<open>
  The handler of \<open>listRoute\<close>, on the validated query
  \<open>{ pageNumber, pageSize, name }\<close>.  A rejected promise of either query leaves the handler
  at once.
\<close>

definition listHandler ::
  "int \<times> int \<times> string option \<Rightarrow> store \<Rightarrow> (error + page response) \<times> store" where
  "listHandler query db =
     (case query of (pn, ps, name) \<Rightarrow>
        (let offset = (pn - 1) * ps;
             filters = (case name of
                          None \<Rightarrow> []
                        | Some n \<Rightarrow> if n \<noteq> [] then [like ''name'' (''%'' @ n @ ''%'')] else [])
         in (case selectCount db filters of
               (Inl e, db1) \<Rightarrow> (Inl e, db1)
             | (Inr count, db1) \<Rightarrow>
                 (case selectFrom db1 filters ps offset of
                    (Inl e, db2) \<Rightarrow> (Inl e, db2)
                  | (Inr its, db2) \<Rightarrow> (Inr (OK, createPage its count pn ps), db2)))))"

definition listRoute ::
  "paginationConfig \<Rightarrow> listQuery \<Rightarrow> store \<Rightarrow> (error + page response) \<times> store" where
  "listRoute cfg q = zValidator (listEntitiesSchema cfg) q listHandler"





section \<open>Notions used in the statements\<close>

text \<open>
  A row satisfies the filters of a list request when no name is given (absent or empty),
  or when its name column matches the pattern built from the name.
\<close>

definition matches :: "string option \<Rightarrow> obj \<Rightarrow> bool" where
  "matches name row =
     (case name of None \<Rightarrow> True
      | Some n \<Rightarrow> n = [] \<or> like ''name'' (''%'' @ n @ ''%'') row)"

text \<open>
  A pagination parameter is invalid when it is not a number, not positive, not an integer,
  or above the configured maximum.
\<close>

definition invalidParam :: "int option \<Rightarrow> qparam \<Rightarrow> bool" where
  "invalidParam cap p =
     (case p of
        NotANumber \<Rightarrow> True
      | Number x \<Rightarrow> x \<le> 0 \<or> x \<notin> \<int> \<or> (case cap of None \<Rightarrow> False | Some m \<Rightarrow> of_int m < x))"

text \<open>
  Consecutive list requests for the given page numbers, each against the store as the
  previous request left it, and the items of an answer (none when it is an error).
\<close>

fun listPages :: "int list \<Rightarrow> int \<Rightarrow> string option \<Rightarrow> store \<Rightarrow> (error + page response) list" where
  "listPages [] ps name db = []"
| "listPages (pn # pns) ps name db =
     (case listHandler (pn, ps, name) db of (r, db') \<Rightarrow> r # listPages pns ps name db')"

definition itemsOf :: "error + page response \<Rightarrow> obj list" where
  "itemsOf r = (case r of Inl e \<Rightarrow> [] | Inr (st, pg) \<Rightarrow> items pg)"




section \<open>A sample table\<close>

text \<open>
  A small table of todo items, stores over it, and requests, to run the routes on.  The
  identifiers have the form of a UUIDv7.
\<close>

definition todo :: "string \<Rightarrow> string \<Rightarrow> obj" where
  "todo ident name = [entityId \<mapsto> JStr ident, ''name'' \<mapsto> JStr name]"

definition sampleRows :: "obj list" where
  "sampleRows =
     [todo ''018f3e6c-7a1b-7c3d-8e4f-0123456789a1'' ''Milk'',
      todo ''018f3e6c-7a1b-7c3d-8e4f-0123456789a2'' ''Bread'',
      todo ''018f3e6c-7a1b-7c3d-8e4f-0123456789a3'' ''Oat milk'']"

definition sampleStore :: store where
  "sampleStore = \<lparr>rows = sampleRows, calls = 0, outage = (\<lambda>n. False)\<rparr>"

text \<open>The sample table scanned in the opposite order.\<close>

definition reversedStore :: store where
  "reversedStore = \<lparr>rows = rev sampleRows, calls = 0, outage = (\<lambda>n. False)\<rparr>"

text \<open>The sample table behind a store whose query number \<open>k\<close> fails.\<close>

definition failingStore :: "nat \<Rightarrow> store" where
  "failingStore k = \<lparr>rows = sampleRows, calls = 0, outage = (\<lambda>n. n = k)\<rparr>"

definition sampleConfig :: paginationConfig where
  "sampleConfig = \<lparr>defaultPageSize = 10, maxPageNumber = None, maxPageSize = Some 100\<rparr>"

definition pageQuery :: "real \<Rightarrow> real \<Rightarrow> listQuery" where
  "pageQuery pn ps =
     \<lparr>queryPageNumber = Some (Number pn), queryPageSize = Some (Number ps), queryName = None\<rparr>"

definition samplePage :: page where
  "samplePage =
     \<lparr>items = [todo ''018f3e6c-7a1b-7c3d-8e4f-0123456789a3'' ''Oat milk''],
      totalCount = 3, pageNumber = 2, pageSize = 2, totalPages = 2\<rparr>"

definition emptyPage :: page where
  "emptyPage = \<lparr>items = [], totalCount = 0, pageNumber = 1, pageSize = 2, totalPages = 0\<rparr>"








section \<open>The list handler, case by case\<close>

lemma filters_matches:
  "sql_and (case name of None \<Rightarrow> []
            | Some n \<Rightarrow> if n \<noteq> [] then [like ''name'' (''%'' @ n @ ''%'')] else []) = matches name"
  by (auto simp: sql_and_def matches_def fun_eq_iff split: option.splits)

lemma listHandler_cases:
  "listHandler (pn, ps, name) db =
     (if outage db (calls db) then (Inl StoreError, db\<lparr>calls := Suc (calls db)\<rparr>)
      else if outage db (Suc (calls db)) \<or> (pn - 1) * ps < 0
        then (Inl StoreError, db\<lparr>calls := Suc (Suc (calls db))\<rparr>)
      else (Inr (OK, createPage
                  ((if 0 \<le> ps then take (nat ps) else (\<lambda>found. found))
                     (drop (nat ((pn - 1) * ps)) (filter (matches name) (rows db))))
                  (int (length (filter (matches name) (rows db)))) pn ps),
            db\<lparr>calls := Suc (Suc (calls db))\<rparr>))"
  by (simp add: listHandler_def selectCount_def selectFrom_def filters_matches Let_def)

lemma listRoute_valid:
  "listEntitiesSchema cfg q = Inr v \<Longrightarrow> listRoute cfg q db = listHandler v db"
  by (simp add: listRoute_def zValidator_def)


lemma ceiling_pages:
  fixes c ps :: int
  assumes "0 < ps" "0 \<le> c"
  shows "c \<le> \<lceil>(of_int c :: real) / of_int ps\<rceil> * ps"
    and "c = 0 \<or> (\<lceil>(of_int c :: real) / of_int ps\<rceil> - 1) * ps < c"
    and "c = 0 \<Longrightarrow> \<lceil>(of_int c :: real) / of_int ps\<rceil> = 0"
proof -
  let ?n = "\<lceil>(of_int c :: real) / of_int ps\<rceil>"
  have pos: "(0::real) < of_int ps" using assms(1) by simp
  have "(of_int c :: real) / of_int ps \<le> of_int ?n" by (rule le_of_int_ceiling)
  then have "(of_int c :: real) \<le> of_int ?n * of_int ps"
    by (simp only: pos_divide_le_eq [OF pos])
  then have "(of_int c :: real) \<le> of_int (?n * ps)" by simp
  then show "c \<le> ?n * ps" by (simp only: of_int_le_iff)
  have "of_int (?n - 1) < (of_int c :: real) / of_int ps"
    using ceiling_correct [of "(of_int c :: real) / of_int ps"] by simp
  then have "of_int (?n - 1) * of_int ps < (of_int c :: real)"
    by (simp only: pos_less_divide_eq [OF pos])
  then have "(of_int ((?n - 1) * ps) :: real) < of_int c" by simp
  then have "(?n - 1) * ps < c" by (simp only: of_int_less_iff)
  then show "c = 0 \<or> (?n - 1) * ps < c" by simp
  show "c = 0 \<Longrightarrow> ?n = 0" by simp
qed

section \<open>Pagination parameters\<close>

lemma Ints_floor:
  fixes x :: real
  shows "x \<in> \<int> \<longleftrightarrow> of_int \<lfloor>x\<rfloor> = x"
  by (metis Ints_cases Ints_of_int floor_of_int)

lemma positiveInteger_invalid:
  "invalidParam cap p \<Longrightarrow> positiveInteger cap p = Inl ValidationError"
  by (auto simp: invalidParam_def positiveInteger_def Ints_floor
           split: qparam.splits option.splits)

lemma positiveInteger_error:
  "positiveInteger cap p = Inl e \<Longrightarrow> e = ValidationError"
  by (auto simp: positiveInteger_def split: qparam.splits if_splits)

lemma positiveInteger_value:
  "positiveInteger cap (Number x) = Inr n \<Longrightarrow> of_int n = x"
  by (auto simp: positiveInteger_def split: if_splits)

section \<open>Consecutive pages\<close>

lemma listPages_windows:
  assumes "\<forall>n. \<not> outage db n" and "1 \<le> ps" and "\<forall>pn \<in> set pns. 1 \<le> pn"
  shows "listPages pns ps name db =
           map (\<lambda>pn. Inr (OK, createPage
                  (take (nat ps) (drop (nat ((pn - 1) * ps)) (filter (matches name) (rows db))))
                  (int (length (filter (matches name) (rows db)))) pn ps)) pns"
  using assms
proof (induction pns arbitrary: db)
  case Nil
  then show ?case by simp
next
  case (Cons pn pns)
  let ?db' = "db\<lparr>calls := Suc (Suc (calls db))\<rparr>"
  have off: "\<not> (pn - 1) * ps < 0" using Cons.prems(2,3) by (simp add: not_less)
  have ps: "\<not> ps < 0" using Cons.prems(2) by simp
  have step: "listHandler (pn, ps, name) db =
      (Inr (OK, createPage
              (take (nat ps) (drop (nat ((pn - 1) * ps)) (filter (matches name) (rows db))))
              (int (length (filter (matches name) (rows db)))) pn ps), ?db')"
    using Cons.prems(1) off ps by (simp add: listHandler_cases)
  have "\<forall>n. \<not> outage ?db' n" using Cons.prems(1) by simp
  then have "listPages pns ps name ?db' =
      map (\<lambda>pn. Inr (OK, createPage
                  (take (nat ps) (drop (nat ((pn - 1) * ps)) (filter (matches name) (rows ?db'))))
                  (int (length (filter (matches name) (rows ?db')))) pn ps)) pns"
    using Cons.prems(2,3) by (intro Cons.IH) simp_all
  then show ?case by (simp add: step)
qed

lemma concat_windows:
  "concat (map (\<lambda>k. take p (drop (k * p) xs)) [0..<n]) = take (n * p) xs"
proof (induction n)
  case 0
  then show ?case by simp
next
  case (Suc n)
  have "take (Suc n * p) xs = take (n * p + p) xs" by (simp add: add.commute)
  also have "\<dots> = take (n * p) xs @ take p (drop (n * p) xs)" by (rule take_add)
  finally show ?case using Suc by simp
qed

lemma upto_as_upt:
  "[1..int n] = map (\<lambda>k. int k + 1) [0..<n]"
proof (induction n)
  case 0
  then show ?case by simp
next
  case (Suc n)
  have "[1..int (Suc n)] = [1..int n] @ [int n + 1]"
    by (simp add: upto_rec2 add.commute)
  then show ?case using Suc by simp
qed

section \<open>LIKE patterns without wildcards\<close>






section \<open>Parsing and the edit route, case by case\<close>







section \<open>The routes on the sample table\<close>

lemma sample_answers:
  "\<not> outage sampleStore n"
  by (simp add: sampleStore_def)

lemma sample_calls:
  "calls sampleStore = 0"
  by (simp add: sampleStore_def)

lemma todo_name:
  "todo i n ''name'' = Some (JStr n)"
  by (simp add: todo_def)

lemma sample_all:
  "filter (matches None) (rows sampleStore) = sampleRows"
  by (simp add: sampleStore_def matches_def)


lemma sample_none_matching:
  "filter (matches (Some ''zzz'')) (rows sampleStore) = []"
  by (simp add: sampleStore_def sampleRows_def matches_def like_def todo_def entityId_def)


lemma sample_second_page:
  "listHandler (2, 2, None) sampleStore = (Inr (OK, samplePage), sampleStore\<lparr>calls := 2\<rparr>)"
  by (simp add: listHandler_cases sample_answers sample_all sample_calls createPage_def
        samplePage_def sampleRows_def)


lemma sample_filtered_out:
  "listHandler (1, 2, Some ''zzz'') sampleStore = (Inr (OK, emptyPage), sampleStore\<lparr>calls := 2\<rparr>)"
  by (simp add: listHandler_cases sample_answers sample_none_matching sample_calls createPage_def
        emptyPage_def)




section \<open>The window of a page\<close>



section \<open>The number of pages\<close>

text \<open>
  C2.  In every page returned by the handler of the list route for a page size \<open>ps > 0\<close>,
  \<open>totalPages\<close> is the ceiling of \<open>totalCount / pageSize\<close>, that is the least number of
  pages of that size that hold \<open>totalCount\<close> rows, where \<open>totalCount\<close> is the number of rows
  satisfying the filters; when \<open>totalCount\<close> is 0 (an empty or fully filtered-out table),
  \<open>totalPages\<close> is 0 and the items are empty.
\<close>

theorem listHandler_totalPages:
  assumes "0 < ps" and "fst (listHandler (pn, ps, name) db) = Inr (st, pg)"
  shows "pageSize pg = ps
       \<and> totalPages pg = \<lceil>(of_int (totalCount pg) :: real) / of_int (pageSize pg)\<rceil>
       \<and> totalCount pg = int (length (filter (matches name) (rows db)))
       \<and> (totalCount pg = 0 \<longrightarrow> totalPages pg = 0 \<and> items pg = [])
       \<and> totalCount pg \<le> totalPages pg * pageSize pg
       \<and> (0 < totalCount pg \<longrightarrow> (totalPages pg - 1) * pageSize pg < totalCount pg)"
proof -
  let ?xs = "filter (matches name) (rows db)"
  from assms have pg: "pg = createPage (take (nat ps) (drop (nat ((pn - 1) * ps)) ?xs))
                                 (int (length ?xs)) pn ps"
    by (auto simp: listHandler_cases split: if_splits)
  have c: "0 \<le> int (length ?xs)" by simp
  note cp = ceiling_pages [OF assms(1) c]
  show ?thesis
    using cp by (auto simp: pg createPage_def)
qed

theorem listHandler_totalPages_witness:
  "(0::int) < 2
   \<and> fst (listHandler (2, 2, None) sampleStore) = Inr (OK, samplePage)
   \<and> totalCount samplePage = 3 \<and> pageSize samplePage = 2 \<and> totalPages samplePage = 2
   \<and> totalPages samplePage = \<lceil>real_of_int (totalCount samplePage) / real_of_int (pageSize samplePage)\<rceil>
   \<and> fst (listHandler (1, 2, Some ''zzz'') sampleStore) = Inr (OK, emptyPage)
   \<and> totalCount emptyPage = 0 \<and> totalPages emptyPage = 0 \<and> items emptyPage = []"
proof -
  have h: "(0::int) < 2" by simp
  have a: "fst (listHandler (2, 2, None) sampleStore) = Inr (OK, samplePage)"
    by (simp add: sample_second_page)
  have b: "fst (listHandler (1, 2, Some ''zzz'') sampleStore) = Inr (OK, emptyPage)"
    by (simp add: sample_filtered_out)
  from listHandler_totalPages [OF h a] listHandler_totalPages [OF h b]
  show ?thesis using a b by (simp add: samplePage_def emptyPage_def)
qed

section \<open>Validation before any query\<close>

text \<open>
  C3.  A list request whose page number or page size is invalid (not a number, not
  positive, not an integer, or above the configured maximum) is answered with a validation
  error and the store is exactly as before: no query reached it.  The values are never
  clamped: whenever a page is returned, its page number and page size are the numbers of
  the request.
\<close>

theorem listRoute_validation:
  "((\<exists>p. queryPageNumber q = Some p \<and> invalidParam (maxPageNumber cfg) p)
      \<or> (\<exists>p. queryPageSize q = Some p \<and> invalidParam (maxPageSize cfg) p)
     \<longrightarrow> listRoute cfg q db = (Inl ValidationError, db)
         \<and> calls (snd (listRoute cfg q db)) = calls db)
   \<and> (\<forall>st pg. fst (listRoute cfg q db) = Inr (st, pg) \<longrightarrow>
         (\<forall>x. queryPageNumber q = Some (Number x) \<longrightarrow> of_int (pageNumber pg) = x)
       \<and> (\<forall>x. queryPageSize q = Some (Number x) \<longrightarrow> of_int (pageSize pg) = x))"
proof (intro conjI impI allI)
  assume "(\<exists>p. queryPageNumber q = Some p \<and> invalidParam (maxPageNumber cfg) p)
      \<or> (\<exists>p. queryPageSize q = Some p \<and> invalidParam (maxPageSize cfg) p)"
  then have "listEntitiesSchema cfg q = Inl ValidationError"
    by (auto simp: listEntitiesSchema_def paginationSchema_def positiveInteger_invalid
             dest: positiveInteger_error split: sum.splits option.splits)
  then show "listRoute cfg q db = (Inl ValidationError, db)"
    by (simp add: listRoute_def zValidator_def)
  then show "calls (snd (listRoute cfg q db)) = calls db" by simp
next
  fix st pg x
  assume r: "fst (listRoute cfg q db) = Inr (st, pg)"
  then obtain pn ps name where v: "listEntitiesSchema cfg q = Inr (pn, ps, name)"
    by (cases "listEntitiesSchema cfg q") (auto simp: listRoute_def zValidator_def)
  with r have "fst (listHandler (pn, ps, name) db) = Inr (st, pg)"
    by (simp add: listRoute_valid)
  then have pg: "pageNumber pg = pn" "pageSize pg = ps"
    by (auto simp: listHandler_cases createPage_def split: if_splits)
  { assume "queryPageNumber q = Some (Number x)"
    with v have "positiveInteger (maxPageNumber cfg) (Number x) = Inr pn"
      by (auto simp: listEntitiesSchema_def paginationSchema_def split: sum.splits option.splits)
    then show "of_int (pageNumber pg) = x" using pg by (simp add: positiveInteger_value) }
  { assume "queryPageSize q = Some (Number x)"
    with v have "positiveInteger (maxPageSize cfg) (Number x) = Inr ps"
      by (auto simp: listEntitiesSchema_def paginationSchema_def split: sum.splits option.splits)
    then show "of_int (pageSize pg) = x" using pg by (simp add: positiveInteger_value) }
qed

theorem listRoute_validation_witness:
  "invalidParam (maxPageNumber sampleConfig) (Number 0)
   \<and> listRoute sampleConfig (pageQuery 0 10) sampleStore = (Inl ValidationError, sampleStore)
   \<and> invalidParam (maxPageSize sampleConfig) (Number 0)
   \<and> listRoute sampleConfig (pageQuery 1 0) sampleStore = (Inl ValidationError, sampleStore)
   \<and> invalidParam (maxPageSize sampleConfig) (Number (3 / 2))
   \<and> listRoute sampleConfig (pageQuery 1 (3 / 2)) sampleStore = (Inl ValidationError, sampleStore)
   \<and> invalidParam (maxPageSize sampleConfig) (Number 101)
   \<and> listRoute sampleConfig (pageQuery 1 101) sampleStore = (Inl ValidationError, sampleStore)
   \<and> fst (listRoute sampleConfig (pageQuery 2 2) sampleStore) = Inr (OK, samplePage)
   \<and> real_of_int (pageNumber samplePage) = 2 \<and> real_of_int (pageSize samplePage) = 2"
proof -
  have a: "invalidParam (maxPageNumber sampleConfig) (Number 0)"
    and b: "invalidParam (maxPageSize sampleConfig) (Number 0)"
    and c: "invalidParam (maxPageSize sampleConfig) (Number (3 / 2))"
    and d: "invalidParam (maxPageSize sampleConfig) (Number 101)"
    by (simp_all add: invalidParam_def sampleConfig_def Ints_floor)
  have v: "listEntitiesSchema sampleConfig (pageQuery 2 2) = Inr (2, 2, None)"
    by (simp add: listEntitiesSchema_def paginationSchema_def positiveInteger_def
          pageQuery_def sampleConfig_def)
  have e: "fst (listRoute sampleConfig (pageQuery 2 2) sampleStore) = Inr (OK, samplePage)"
    by (simp add: listRoute_valid [OF v] sample_second_page)
  have q: "queryPageNumber (pageQuery x y) = Some (Number x)"
    "queryPageSize (pageQuery x y) = Some (Number y)" for x y
    by (simp_all add: pageQuery_def)
  from listRoute_validation [of "pageQuery 0 10" sampleConfig sampleStore]
    listRoute_validation [of "pageQuery 1 0" sampleConfig sampleStore]
    listRoute_validation [of "pageQuery 1 (3 / 2)" sampleConfig sampleStore]
    listRoute_validation [of "pageQuery 1 101" sampleConfig sampleStore]
    listRoute_validation [of "pageQuery 2 2" sampleConfig sampleStore]
  show ?thesis using a b c d e q by simp
qed

section \<open>Beyond the last page\<close>



section \<open>Repeated calls\<close>



section \<open>Failing queries\<close>

text \<open>
  C8.  When the count query or the fetch query fails, the list handler fails with the
  error of the store: it returns no page at all, so no page with a missing or defaulted
  \<open>totalCount\<close> and no partial data.
\<close>

theorem listHandler_store_failure:
  assumes "outage db (calls db) \<or> outage db (Suc (calls db))"
  shows "fst (listHandler (pn, ps, name) db) = Inl StoreError
       \<and> (\<forall>st pg. fst (listHandler (pn, ps, name) db) \<noteq> Inr (st, pg))
       \<and> rows (snd (listHandler (pn, ps, name) db)) = rows db"
  using assms by (auto simp: listHandler_cases)

theorem listHandler_store_failure_witness:
  "outage (failingStore 0) (calls (failingStore 0))
   \<and> fst (listHandler (1, 2, None) (failingStore 0)) = Inl StoreError
   \<and> outage (failingStore 1) (Suc (calls (failingStore 1)))
   \<and> fst (listHandler (1, 2, None) (failingStore 1)) = Inl StoreError"
proof -
  have a: "outage (failingStore 0) (calls (failingStore 0))"
    and b: "outage (failingStore 1) (Suc (calls (failingStore 1)))"
    by (simp_all add: failingStore_def)
  from listHandler_store_failure [of "failingStore 0" 1 2 None]
    listHandler_store_failure [of "failingStore 1" 1 2 None]
  show ?thesis using a b by simp
qed

section \<open>Pages are disjoint and exhaustive\<close>

text \<open>
  C5, as stated, fails: the fetch query has no ORDER BY clause, so its rows come in the
  scan order of the table and not in the order of a key.  Two tables that hold the same
  three records, scanned in opposite orders, give two different first pages; a query
  ordered by a key of the records would give the same one.
\<close>

theorem fetch_order_counterexample:
  "set (rows reversedStore) = set (rows sampleStore)
   \<and> itemsOf (fst (listHandler (1, 1, None) sampleStore)) =
        [todo ''018f3e6c-7a1b-7c3d-8e4f-0123456789a1'' ''Milk'']
   \<and> itemsOf (fst (listHandler (1, 1, None) reversedStore)) =
        [todo ''018f3e6c-7a1b-7c3d-8e4f-0123456789a3'' ''Oat milk'']
   \<and> todo ''018f3e6c-7a1b-7c3d-8e4f-0123456789a1'' ''Milk''
        \<noteq> todo ''018f3e6c-7a1b-7c3d-8e4f-0123456789a3'' ''Oat milk''"
proof -
  have "set (rows reversedStore) = set (rows sampleStore)"
    by (simp add: reversedStore_def sampleStore_def)
  moreover have "itemsOf (fst (listHandler (1, 1, None) sampleStore)) =
      [todo ''018f3e6c-7a1b-7c3d-8e4f-0123456789a1'' ''Milk'']"
    by (simp add: listHandler_cases itemsOf_def createPage_def matches_def sampleStore_def
          sampleRows_def)
  moreover have "itemsOf (fst (listHandler (1, 1, None) reversedStore)) =
      [todo ''018f3e6c-7a1b-7c3d-8e4f-0123456789a3'' ''Oat milk'']"
    by (simp add: listHandler_cases itemsOf_def createPage_def matches_def reversedStore_def
          sampleRows_def)
  moreover have "todo ''018f3e6c-7a1b-7c3d-8e4f-0123456789a1'' ''Milk''
      \<noteq> todo ''018f3e6c-7a1b-7c3d-8e4f-0123456789a3'' ''Oat milk''"
  proof
    assume "todo ''018f3e6c-7a1b-7c3d-8e4f-0123456789a1'' ''Milk'' =
      todo ''018f3e6c-7a1b-7c3d-8e4f-0123456789a3'' ''Oat milk''"
    then have "todo ''018f3e6c-7a1b-7c3d-8e4f-0123456789a1'' ''Milk'' ''name'' =
      todo ''018f3e6c-7a1b-7c3d-8e4f-0123456789a3'' ''Oat milk'' ''name''"
      by (rule arg_cong)
    then show False by (simp add: todo_name)
  qed
  ultimately show ?thesis by blast
qed

text \<open>
  C5, amended.  The fetch query applies no ordering of its own: the matching rows come in
  the scan order of the table.  For a fixed name filter and page size \<open>ps \<ge> 1\<close>, on a store
  that answers every query, whose rows and scan order the requests leave as they are,
  the items of the pages \<open>1 .. totalPages\<close>, concatenated, are exactly the sequence of the
  matching rows: no row of it is missing or repeated; every request returns a page with
  that same \<open>totalPages\<close>.
\<close>

theorem listPages_exhaustive:
  assumes "1 \<le> ps" and "\<forall>n. \<not> outage db n"
    and "N = \<lceil>(of_int (int (length (filter (matches name) (rows db)))) :: real) / of_int ps\<rceil>"
  shows "concat (map itemsOf (listPages [1..N] ps name db)) = filter (matches name) (rows db)
       \<and> list_all (\<lambda>r. \<exists>pg. r = Inr (OK, pg) \<and> totalPages pg = N) (listPages [1..N] ps name db)"
proof -
  let ?xs = "filter (matches name) (rows db)"
  have ps: "0 < ps" using assms(1) by simp
  have "(0::real) \<le> of_int (int (length ?xs)) / of_int ps" using ps by simp
  then have N0: "0 \<le> N" unfolding assms(3) by (simp add: zero_le_ceiling)
  define n where "n = nat N"
  have N: "N = int n" using N0 by (simp add: n_def)
  have pages: "listPages [1..N] ps name db =
      map (\<lambda>pn. Inr (OK, createPage
                  (take (nat ps) (drop (nat ((pn - 1) * ps)) ?xs)) (int (length ?xs)) pn ps)) [1..N]"
    by (rule listPages_windows [OF assms(2) assms(1)]) simp
  have win: "nat (int k * ps) = k * nat ps" for k
    using ps by (simp add: nat_mult_distrib)
  have "concat (map itemsOf (listPages [1..N] ps name db)) =
      concat (map (\<lambda>k. take (nat ps) (drop (k * nat ps) ?xs)) [0..<n])"
    unfolding pages by (simp add: N upto_as_upt itemsOf_def createPage_def comp_def win)
  also have "\<dots> = take (n * nat ps) ?xs" by (rule concat_windows)
  also have "\<dots> = ?xs"
  proof -
    have "int (length ?xs) \<le> N * ps" unfolding assms(3) by (rule ceiling_pages(1) [OF ps]) simp
    moreover have "N * ps = int (n * nat ps)" using ps N by simp
    ultimately have "length ?xs \<le> n * nat ps" by (simp only: of_nat_le_iff)
    then show ?thesis by simp
  qed
  finally have 1: "concat (map itemsOf (listPages [1..N] ps name db)) = ?xs" .
  have 2: "list_all (\<lambda>r. \<exists>pg. r = Inr (OK, pg) \<and> totalPages pg = N) (listPages [1..N] ps name db)"
    unfolding pages by (auto simp: list_all_iff createPage_def assms(3))
  from 1 2 show ?thesis by simp
qed

theorem listPages_exhaustive_witness:
  "(1::int) \<le> 2 \<and> (\<forall>n. \<not> outage sampleStore n)
   \<and> (2::int) = \<lceil>real_of_int (int (length (filter (matches None) (rows sampleStore)))) / real_of_int 2\<rceil>
   \<and> concat (map itemsOf (listPages [1..2] 2 None sampleStore)) = sampleRows"
proof -
  have h1: "(1::int) \<le> 2" by simp
  have h2: "\<forall>n. \<not> outage sampleStore n" by (simp add: sample_answers)
  have h3: "(2::int) = \<lceil>real_of_int (int (length (filter (matches None) (rows sampleStore)))) / real_of_int 2\<rceil>"
    by (simp add: sample_all sampleRows_def)
  from listPages_exhaustive [OF h1 h2 h3] h1 h2 h3 show ?thesis by (simp add: sample_all)
qed

section \<open>The name filter\<close>




section \<open>Adding a record\<close>



section \<open>Editing a record\<close>




end
